theory Spec2Isabelle
  imports Complex_Main
begin

section \<open>Python values\<close>

text \<open>
  \<^verbatim>\<open>deploy.py\<close> builds objects of classes that it imports from the deployment SDK and
  hands the outermost one to the SDK's \<^verbatim>\<open>deploy\<close> method. The script only ever gives
  keyword arguments, so an object is its class name together with the keyword arguments
  of the constructor call, in the order the source writes them.

  The two float literals of the script, \<^verbatim>\<open>0.5\<close> and \<^verbatim>\<open>1.0\<close>, are exact binary
  fractions and the script does no arithmetic on them, so a float is a real number here.
\<close>

datatype pyval =
    PyNone
  | PyBool bool
  | PyInt int
  | PyFloat real
  | PyStr string
  | PyList "pyval list"
  | PyObj string "(string \<times> pyval) list"

type_synonym kwargs = "(string \<times> pyval) list"

text \<open>Attribute access \<^verbatim>\<open>v.name\<close>; \<open>None\<close> stands for Python's AttributeError.\<close>

fun getattr :: "pyval \<Rightarrow> string \<Rightarrow> pyval option" where
  "getattr (PyObj c kw) a = map_of kw a"
| "getattr _ a = None"

text \<open>\<^verbatim>\<open>isinstance(v, C)\<close> for a class \<open>C\<close> of the SDK, without subclassing.\<close>

fun isinstance :: "pyval \<Rightarrow> string \<Rightarrow> bool" where
  "isinstance (PyObj c kw) c' = (c = c')"
| "isinstance _ c' = False"

text \<open>
  The number a value stands for in a comparison, and Python's \<^verbatim>\<open><=\<close> on numbers;
  \<open>None\<close> stands for the TypeError of comparing anything else.
\<close>

fun num_of :: "pyval \<Rightarrow> real option" where
  "num_of (PyInt i) = Some (of_int i)"
| "num_of (PyFloat r) = Some r"
| "num_of (PyBool b) = Some (if b then 1 else 0)"
| "num_of _ = None"

definition py_le :: "pyval \<Rightarrow> pyval \<Rightarrow> bool option" where
  "py_le a b =
     (case num_of a of
        None \<Rightarrow> None
      | Some x \<Rightarrow> (case num_of b of None \<Rightarrow> None | Some y \<Rightarrow> Some (x \<le> y)))"

section \<open>The SDK, a parameter of the script\<close>

text \<open>
  The SDK (\<^verbatim>\<open>truefoundry.deploy\<close>) is not part of the repository, so the script is
  modelled for any SDK:
  \<^item> \<open>validate sdk C kw\<close> is what the constructor call \<^verbatim>\<open>C(**kw)\<close> raises, if it
    raises; when it does not, the call returns the object of class \<open>C\<close> whose
    attributes are \<open>kw\<close>;
  \<^item> \<open>deploy sdk self kw w\<close> is the method call \<^verbatim>\<open>self.deploy(**kw)\<close> made when
    the control plane is in state \<open>w\<close>: it raises or returns a value, leaves the
    receiver in some state (a Python method may write to \<^verbatim>\<open>self\<close>) and the
    control plane in some state.
  \<open>'e\<close> is the type of exceptions, \<open>'w\<close> the state of everything the SDK talks to.
  Attributes that the script does not pass, which the SDK fills with its defaults, are
  not modelled, and neither are the \<^verbatim>\<open>import\<close> statements of lines 1 to 10.
\<close>

record ('e, 'w) sdk =
  validate :: "string \<Rightarrow> kwargs \<Rightarrow> 'e option"
  deploy :: "pyval \<Rightarrow> kwargs \<Rightarrow> 'w \<Rightarrow> ('e + pyval) \<times> pyval \<times> 'w"

text \<open>A constructor call; \<open>Inl e\<close> is the exception \<open>e\<close> raised.\<close>

definition new :: "('e, 'w) sdk \<Rightarrow> string \<Rightarrow> kwargs \<Rightarrow> 'e + pyval" where
  "new sdk c kw = (case validate sdk c kw of Some e \<Rightarrow> Inl e | None \<Rightarrow> Inr (PyObj c kw))"

text \<open>
  Sequencing without \<^verbatim>\<open>try\<close>: an exception of the first computation ends the second
  before it starts.
\<close>

definition bind_exn :: "'e + 'a \<Rightarrow> ('a \<Rightarrow> 'e + 'b) \<Rightarrow> 'e + 'b" where
  "bind_exn m f = (case m of Inl e \<Rightarrow> Inl e | Inr x \<Rightarrow> f x)"

section \<open>The script\<close>

text \<open>
  Lines 14 to 42: the expression assigned to \<^verbatim>\<open>service\<close>. Python evaluates keyword
  arguments from left to right and the arguments of a call before the call, which gives
  the order LocalSource, DockerFileBuild, Build, NodeSelector, Resources, Port, Service.
\<close>

definition build_service :: "('e, 'w) sdk \<Rightarrow> 'e + pyval" where
  "build_service sdk =
     bind_exn (new sdk ''LocalSource'' []) (\<lambda>build_source.
     bind_exn (new sdk ''DockerFileBuild''
        [(''dockerfile_path'', PyStr ''./Dockerfile''),
         (''build_context_path'', PyStr ''./'')]) (\<lambda>build_spec.
     bind_exn (new sdk ''Build''
        [(''build_source'', build_source),
         (''build_spec'', build_spec)]) (\<lambda>image.
     bind_exn (new sdk ''NodeSelector'' []) (\<lambda>node.
     bind_exn (new sdk ''Resources''
        [(''cpu_request'', PyFloat 0.5),
         (''cpu_limit'', PyFloat 0.5),
         (''memory_request'', PyInt 1000),
         (''memory_limit'', PyInt 1000),
         (''ephemeral_storage_request'', PyInt 500),
         (''ephemeral_storage_limit'', PyInt 500),
         (''node'', node)]) (\<lambda>resources.
     bind_exn (new sdk ''Port''
        [(''port'', PyInt 8096),
         (''protocol'', PyStr ''TCP''),
         (''expose'', PyBool True),
         (''app_protocol'', PyStr ''http''),
         (''host'', PyStr ''ml.tfy-eo.truefoundry.cloud''),
         (''path'', PyStr ''/fast-mcp-rishi-ws-8096/'')]) (\<lambda>port.
     new sdk ''Service''
        [(''name'', PyStr ''fast-mcp''),
         (''image'', image),
         (''resources'', resources),
         (''ports'', PyList [port]),
         (''replicas'', PyFloat 1.0)]))))))"

text \<open>
  What a run of the script leaves behind: the keyword arguments given to
  \<^verbatim>\<open>logging.basicConfig\<close>, the module variable \<^verbatim>\<open>service\<close> and the state of
  the control plane, which only the SDK's \<^verbatim>\<open>deploy\<close> changes.
\<close>

record 'w state =
  logging_config :: "kwargs option"
  service_var :: "pyval option"
  remote :: 'w

definition init :: "'w \<Rightarrow> 'w state" where
  "init w = \<lparr>logging_config = None, service_var = None, remote = w\<rparr>"

text \<open>\<^verbatim>\<open>logging.INFO\<close> of the standard library.\<close>

definition INFO :: int where
  "INFO = 20"

text \<open>Line 45: the keyword arguments of the call of \<^verbatim>\<open>deploy\<close>.\<close>

definition deploy_kwargs :: kwargs where
  "deploy_kwargs =
     [(''workspace_fqn'', PyStr ''tfy-ea-dev-eo-az:rishi-ws''), (''wait'', PyBool False)]"

text \<open>
  The whole module, lines 12 to 45. The result is \<open>Inl e\<close> when the exception \<open>e\<close>
  leaves the script and \<open>Inr ()\<close> when the script runs to its end; the value that
  \<^verbatim>\<open>deploy\<close> returns is dropped, as an expression statement does.
\<close>

definition script :: "('e, 'w) sdk \<Rightarrow> 'w state \<Rightarrow> ('e + unit) \<times> 'w state" where
  "script sdk s0 =
     (let s1 = s0\<lparr>logging_config := Some [(''level'', PyInt INFO)]\<rparr> in
      case build_service sdk of
        Inl e \<Rightarrow> (Inl e, s1)
      | Inr service \<Rightarrow>
          (let s2 = s1\<lparr>service_var := Some service\<rparr> in
           case deploy sdk service deploy_kwargs (remote s2) of
             (r, service', w') \<Rightarrow>
               (let s3 = s2\<lparr>service_var := Some service', remote := w'\<rparr>
                in case r of Inl e \<Rightarrow> (Inl e, s3) | Inr v \<Rightarrow> (Inr (), s3))))"

text \<open>An SDK that accepts every constructor call and whose \<^verbatim>\<open>deploy\<close> returns None.\<close>

definition accepting_sdk :: "(unit, nat) sdk" where
  "accepting_sdk =
     \<lparr>validate = (\<lambda>c kw. None), deploy = (\<lambda>self kw w. (Inr PyNone, self, Suc w))\<rparr>"

text \<open>
  An SDK whose control plane keeps every call of \<^verbatim>\<open>deploy\<close> that reaches it, receiver
  and keyword arguments, oldest first.
\<close>

definition recording_sdk :: "(unit, (pyval \<times> kwargs) list) sdk" where
  "recording_sdk =
     \<lparr>validate = (\<lambda>c kw. None),
      deploy = (\<lambda>self kw w. (Inr PyNone, self, w @ [(self, kw)]))\<rparr>"

text \<open>An SDK whose \<^verbatim>\<open>Port\<close> constructor rejects its arguments.\<close>

definition rejecting_sdk :: "(string, nat) sdk" where
  "rejecting_sdk =
     \<lparr>validate = (\<lambda>c kw. if c = ''Port'' then Some ''ValidationError'' else None),
      deploy = (\<lambda>self kw w. (Inr PyNone, self, Suc w))\<rparr>"

text \<open>An SDK whose \<^verbatim>\<open>deploy\<close> is refused by the control plane.\<close>

definition failing_sdk :: "(string, nat) sdk" where
  "failing_sdk =
     \<lparr>validate = (\<lambda>c kw. None),
      deploy = (\<lambda>self kw w. (Inl ''quota exceeded'', self, w))\<rparr>"


section \<open>The descriptor\<close>

lemma bind_exn_Inr:
  "bind_exn m f = Inr y \<Longrightarrow> \<exists>x. m = Inr x \<and> f x = Inr y"
  by (cases m) (simp_all add: bind_exn_def)

lemma new_Inr: "new sdk c kw = Inr v \<Longrightarrow> v = PyObj c kw"
  by (simp add: new_def split: option.splits)

text \<open>When no constructor raises, the descriptor is the object the source spells out.\<close>

lemma build_service_value:
  assumes "build_service sdk = Inr d"
  shows "d = PyObj ''Service''
        [(''name'', PyStr ''fast-mcp''),
         (''image'', PyObj ''Build''
            [(''build_source'', PyObj ''LocalSource'' []),
             (''build_spec'', PyObj ''DockerFileBuild''
                [(''dockerfile_path'', PyStr ''./Dockerfile''),
                 (''build_context_path'', PyStr ''./'')])]),
         (''resources'', PyObj ''Resources''
            [(''cpu_request'', PyFloat 0.5),
             (''cpu_limit'', PyFloat 0.5),
             (''memory_request'', PyInt 1000),
             (''memory_limit'', PyInt 1000),
             (''ephemeral_storage_request'', PyInt 500),
             (''ephemeral_storage_limit'', PyInt 500),
             (''node'', PyObj ''NodeSelector'' [])]),
         (''ports'', PyList [PyObj ''Port''
            [(''port'', PyInt 8096),
             (''protocol'', PyStr ''TCP''),
             (''expose'', PyBool True),
             (''app_protocol'', PyStr ''http''),
             (''host'', PyStr ''ml.tfy-eo.truefoundry.cloud''),
             (''path'', PyStr ''/fast-mcp-rishi-ws-8096/'')]]),
         (''replicas'', PyFloat 1.0)]"
  using assms unfolding build_service_def
  by (auto dest!: bind_exn_Inr new_Inr)

lemma build_service_accepting: "\<exists>d. build_service accepting_sdk = Inr d"
  by (simp add: build_service_def bind_exn_def new_def accepting_sdk_def)

text \<open>
  Claim C4. Whenever the descriptor is constructed, its \<^verbatim>\<open>name\<close> is the string
  \<^verbatim>\<open>fast-mcp\<close>.
\<close>

theorem service_name:
  "build_service sdk = Inr d \<Longrightarrow> getattr d ''name'' = Some (PyStr ''fast-mcp'')"
  by (drule build_service_value) simp

theorem service_name_witness:
  "\<exists>d. build_service accepting_sdk = Inr d \<and> getattr d ''name'' = Some (PyStr ''fast-mcp'')"
proof -
  obtain d where d: "build_service accepting_sdk = Inr d"
    using build_service_accepting by blast
  from service_name [OF d] d show ?thesis by blast
qed

text \<open>
  Claim C2. Whenever the descriptor is constructed, its \<^verbatim>\<open>ports\<close> is a list of
  exactly one element, a \<^verbatim>\<open>Port\<close> with port 8096, protocol \<^verbatim>\<open>TCP\<close>, expose true,
  app_protocol \<^verbatim>\<open>http\<close>, host \<^verbatim>\<open>ml.tfy-eo.truefoundry.cloud\<close> and path
  \<^verbatim>\<open>/fast-mcp-rishi-ws-8096/\<close>.
\<close>

theorem service_ports:
  "build_service sdk = Inr d \<Longrightarrow>
     \<exists>p. getattr d ''ports'' = Some (PyList [p]) \<and>
       isinstance p ''Port'' \<and>
       getattr p ''port'' = Some (PyInt 8096) \<and>
       getattr p ''protocol'' = Some (PyStr ''TCP'') \<and>
       getattr p ''expose'' = Some (PyBool True) \<and>
       getattr p ''app_protocol'' = Some (PyStr ''http'') \<and>
       getattr p ''host'' = Some (PyStr ''ml.tfy-eo.truefoundry.cloud'') \<and>
       getattr p ''path'' = Some (PyStr ''/fast-mcp-rishi-ws-8096/'')"
  by (drule build_service_value) simp

theorem service_ports_witness:
  "\<exists>d. build_service accepting_sdk = Inr d \<and>
     (\<exists>p. getattr d ''ports'' = Some (PyList [p]) \<and>
       isinstance p ''Port'' \<and>
       getattr p ''port'' = Some (PyInt 8096) \<and>
       getattr p ''protocol'' = Some (PyStr ''TCP'') \<and>
       getattr p ''expose'' = Some (PyBool True) \<and>
       getattr p ''app_protocol'' = Some (PyStr ''http'') \<and>
       getattr p ''host'' = Some (PyStr ''ml.tfy-eo.truefoundry.cloud'') \<and>
       getattr p ''path'' = Some (PyStr ''/fast-mcp-rishi-ws-8096/''))"
proof -
  obtain d where d: "build_service accepting_sdk = Inr d"
    using build_service_accepting by blast
  from service_ports [OF d] d show ?thesis by blast
qed

text \<open>
  Claim C3. Whenever the descriptor is constructed, its \<^verbatim>\<open>resources\<close> has the same
  value as request and as limit in each dimension: 0.5 for cpu, 1000 for memory and 500
  for ephemeral storage.
\<close>

theorem service_resources:
  "build_service sdk = Inr d \<Longrightarrow>
     \<exists>r. getattr d ''resources'' = Some r \<and>
       isinstance r ''Resources'' \<and>
       getattr r ''cpu_request'' = Some (PyFloat 0.5) \<and>
       getattr r ''cpu_limit'' = Some (PyFloat 0.5) \<and>
       getattr r ''memory_request'' = Some (PyInt 1000) \<and>
       getattr r ''memory_limit'' = Some (PyInt 1000) \<and>
       getattr r ''ephemeral_storage_request'' = Some (PyInt 500) \<and>
       getattr r ''ephemeral_storage_limit'' = Some (PyInt 500) \<and>
       getattr r ''cpu_request'' = getattr r ''cpu_limit'' \<and>
       getattr r ''memory_request'' = getattr r ''memory_limit'' \<and>
       getattr r ''ephemeral_storage_request'' = getattr r ''ephemeral_storage_limit''"
  by (drule build_service_value) simp

theorem service_resources_witness:
  "\<exists>d. build_service accepting_sdk = Inr d \<and>
     (\<exists>r. getattr d ''resources'' = Some r \<and>
       isinstance r ''Resources'' \<and>
       getattr r ''cpu_request'' = Some (PyFloat 0.5) \<and>
       getattr r ''cpu_limit'' = Some (PyFloat 0.5) \<and>
       getattr r ''memory_request'' = Some (PyInt 1000) \<and>
       getattr r ''memory_limit'' = Some (PyInt 1000) \<and>
       getattr r ''ephemeral_storage_request'' = Some (PyInt 500) \<and>
       getattr r ''ephemeral_storage_limit'' = Some (PyInt 500) \<and>
       getattr r ''cpu_request'' = getattr r ''cpu_limit'' \<and>
       getattr r ''memory_request'' = getattr r ''memory_limit'' \<and>
       getattr r ''ephemeral_storage_request'' = getattr r ''ephemeral_storage_limit'')"
proof -
  obtain d where d: "build_service accepting_sdk = Inr d"
    using build_service_accepting by blast
  from service_resources [OF d] d show ?thesis by blast
qed

text \<open>
  Claim C5. Whenever the descriptor is constructed, its \<^verbatim>\<open>replicas\<close> is the float
  1.0.
\<close>

theorem service_replicas:
  "build_service sdk = Inr d \<Longrightarrow> getattr d ''replicas'' = Some (PyFloat 1.0)"
  by (drule build_service_value) simp

theorem service_replicas_witness:
  "\<exists>d. build_service accepting_sdk = Inr d \<and>
     (getattr d ''replicas'' = Some (PyFloat 1.0))"
proof -
  obtain d where d: "build_service accepting_sdk = Inr d"
    using build_service_accepting by blast
  from service_replicas [OF d] d show ?thesis by blast
qed

text \<open>
  Claim C6. Whenever the descriptor is constructed, in each dimension of its
  \<^verbatim>\<open>resources\<close> (cpu, memory, ephemeral storage) the request and the limit are
  numbers and the request is at most the limit.
\<close>

theorem request_le_limit:
  "build_service sdk = Inr d \<Longrightarrow>
     \<exists>r cr cl mr ml er el.
       getattr d ''resources'' = Some r \<and>
       getattr r ''cpu_request'' = Some cr \<and> getattr r ''cpu_limit'' = Some cl \<and>
       py_le cr cl = Some True \<and>
       getattr r ''memory_request'' = Some mr \<and> getattr r ''memory_limit'' = Some ml \<and>
       py_le mr ml = Some True \<and>
       getattr r ''ephemeral_storage_request'' = Some er \<and>
       getattr r ''ephemeral_storage_limit'' = Some el \<and>
       py_le er el = Some True"
  by (drule build_service_value) (simp add: py_le_def)

theorem request_le_limit_witness:
  "\<exists>d. build_service accepting_sdk = Inr d \<and>
     (\<exists>r cr cl mr ml er el.
       getattr d ''resources'' = Some r \<and>
       getattr r ''cpu_request'' = Some cr \<and> getattr r ''cpu_limit'' = Some cl \<and>
       py_le cr cl = Some True \<and>
       getattr r ''memory_request'' = Some mr \<and> getattr r ''memory_limit'' = Some ml \<and>
       py_le mr ml = Some True \<and>
       getattr r ''ephemeral_storage_request'' = Some er \<and>
       getattr r ''ephemeral_storage_limit'' = Some el \<and>
       py_le er el = Some True)"
proof -
  obtain d where d: "build_service accepting_sdk = Inr d"
    using build_service_accepting by blast
  from request_le_limit [OF d] d show ?thesis by blast
qed

text \<open>
  Claim C7. Whenever the descriptor is constructed, its \<^verbatim>\<open>image\<close> is a
  \<^verbatim>\<open>Build\<close> whose \<^verbatim>\<open>build_source\<close> is a \<^verbatim>\<open>LocalSource\<close> made without
  arguments and whose \<^verbatim>\<open>build_spec\<close> is a \<^verbatim>\<open>DockerFileBuild\<close> with
  dockerfile_path \<^verbatim>\<open>./Dockerfile\<close> and build_context_path \<^verbatim>\<open>./\<close>.
\<close>

theorem service_image:
  "build_service sdk = Inr d \<Longrightarrow>
     \<exists>image source spec.
       getattr d ''image'' = Some image \<and> isinstance image ''Build'' \<and>
       getattr image ''build_source'' = Some source \<and>
       source = PyObj ''LocalSource'' [] \<and>
       getattr image ''build_spec'' = Some spec \<and> isinstance spec ''DockerFileBuild'' \<and>
       getattr spec ''dockerfile_path'' = Some (PyStr ''./Dockerfile'') \<and>
       getattr spec ''build_context_path'' = Some (PyStr ''./'')"
  by (drule build_service_value) simp

theorem service_image_witness:
  "\<exists>d. build_service accepting_sdk = Inr d \<and>
     (\<exists>image source spec.
       getattr d ''image'' = Some image \<and> isinstance image ''Build'' \<and>
       getattr image ''build_source'' = Some source \<and>
       source = PyObj ''LocalSource'' [] \<and>
       getattr image ''build_spec'' = Some spec \<and> isinstance spec ''DockerFileBuild'' \<and>
       getattr spec ''dockerfile_path'' = Some (PyStr ''./Dockerfile'') \<and>
       getattr spec ''build_context_path'' = Some (PyStr ''./''))"
proof -
  obtain d where d: "build_service accepting_sdk = Inr d"
    using build_service_accepting by blast
  from service_image [OF d] d show ?thesis by blast
qed

text \<open>
  The \<^verbatim>\<open>node\<close> of the descriptor's \<^verbatim>\<open>resources\<close> is present and is a
  \<^verbatim>\<open>NodeSelector\<close> made without arguments. Which placement such a selector asks
  for is the meaning of the SDK's defaults, which the source does not fix.
\<close>

lemma node_selector_no_arguments:
  "build_service sdk = Inr d \<Longrightarrow>
     \<exists>r. getattr d ''resources'' = Some r \<and>
       getattr r ''node'' = Some (PyObj ''NodeSelector'' [])"
  by (drule build_service_value) simp

section \<open>The call of deploy\<close>

lemma script_constructed:
  "build_service sdk = Inr d \<Longrightarrow>
     script sdk s =
       (case deploy sdk d deploy_kwargs (remote s) of
          (r, d', w') \<Rightarrow>
            (case r of Inl e \<Rightarrow> Inl e | Inr v \<Rightarrow> Inr (),
             s\<lparr>logging_config := Some [(''level'', PyInt INFO)],
                service_var := Some d',
                remote := w'\<rparr>))"
  by (simp add: script_def Let_def split: prod.splits sum.splits)

lemma script_not_constructed:
  "build_service sdk = Inl e \<Longrightarrow>
     script sdk s = (Inl e, s\<lparr>logging_config := Some [(''level'', PyInt INFO)]\<rparr>)"
  by (simp add: script_def)

text \<open>
  The script writes the module variable once, before the call; what it holds at the end
  is the receiver as \<^verbatim>\<open>deploy\<close> left it.
\<close>

lemma script_service_var:
  "build_service sdk = Inr d \<Longrightarrow>
     service_var (snd (script sdk s)) = Some (fst (snd (deploy sdk d deploy_kwargs (remote s))))"
  by (simp add: script_constructed split: prod.splits)

text \<open>A script that stops in the construction leaves the control plane as it was.\<close>

lemma script_no_call:
  "build_service sdk = Inl e \<Longrightarrow> remote (snd (script sdk (init w))) = w"
  by (simp add: script_not_constructed init_def)

text \<open>
  Claim C1. Whenever the descriptor is constructed, a run of the script from its start
  leaves the control plane exactly as one call of the SDK's \<^verbatim>\<open>deploy\<close> leaves it,
  the call being made on the constructed descriptor in the control plane's state at the
  start, with workspace_fqn the string \<^verbatim>\<open>tfy-ea-dev-eo-az:rishi-ws\<close> and wait false.
  This holds for every SDK, whether the call returns or raises; for an SDK whose control
  plane records the calls it receives, the record after the run is that one call.
\<close>

theorem deploy_called_once:
  "build_service sdk = Inr d \<Longrightarrow>
     remote (snd (script sdk (init w))) =
       snd (snd (deploy sdk d
         [(''workspace_fqn'', PyStr ''tfy-ea-dev-eo-az:rishi-ws''),
          (''wait'', PyBool False)] w))"
  by (simp add: script_constructed init_def deploy_kwargs_def split: prod.splits)

theorem deploy_called_once_witness:
  "\<exists>d. build_service recording_sdk = Inr d \<and>
     remote (snd (script recording_sdk (init []))) =
       [(d, [(''workspace_fqn'', PyStr ''tfy-ea-dev-eo-az:rishi-ws''),
             (''wait'', PyBool False)])]"
proof -
  have "\<exists>d. build_service recording_sdk = Inr d"
    by (simp add: build_service_def bind_exn_def new_def recording_sdk_def)
  then obtain d where d: "build_service recording_sdk = Inr d" ..
  from deploy_called_once [OF d, of "[]"]
  have "remote (snd (script recording_sdk (init []))) =
       [(d, [(''workspace_fqn'', PyStr ''tfy-ea-dev-eo-az:rishi-ws''),
             (''wait'', PyBool False)])]"
    by (simp add: recording_sdk_def)
  with d show ?thesis by blast
qed

section \<open>Exceptions\<close>

lemma bind_exn_Inl:
  "bind_exn m f = Inl e \<longleftrightarrow> m = Inl e \<or> (\<exists>x. m = Inr x \<and> f x = Inl e)"
  by (cases m) (simp_all add: bind_exn_def)

lemma new_Inl: "new sdk c kw = Inl e \<longleftrightarrow> validate sdk c kw = Some e"
  by (simp add: new_def split: option.splits)

text \<open>An exception that leaves the construction is one that a constructor raised.\<close>

lemma build_service_raised:
  "build_service sdk = Inl e \<Longrightarrow> \<exists>c kw. validate sdk c kw = Some e"
  unfolding build_service_def bind_exn_Inl new_Inl by blast

text \<open>
  Claim C8. The script catches nothing. An exception leaves the script exactly when the
  construction of the descriptor raises it, or the descriptor is constructed and the
  call of \<^verbatim>\<open>deploy\<close> on it raises it; it is the same exception in both cases.
\<close>

theorem exception_propagates:
  "fst (script sdk s) = Inl e \<longleftrightarrow>
     build_service sdk = Inl e \<or>
     (\<exists>d. build_service sdk = Inr d \<and>
          fst (deploy sdk d deploy_kwargs (remote s)) = Inl e)"
proof (cases "build_service sdk")
  case (Inl e')
  then show ?thesis by (simp add: script_not_constructed)
next
  case (Inr d)
  then show ?thesis
    by (simp add: script_constructed split: prod.splits sum.splits)
qed

theorem exception_propagates_witness:
  "fst (script rejecting_sdk (init 0)) = Inl ''ValidationError'' \<and>
   fst (script failing_sdk (init 0)) = Inl ''quota exceeded''"
proof -
  have 1: "build_service rejecting_sdk = Inl ''ValidationError''"
    by (simp add: build_service_def bind_exn_def new_def rejecting_sdk_def)
  have "\<exists>d. build_service failing_sdk = Inr d"
    by (simp add: build_service_def bind_exn_def new_def failing_sdk_def)
  then obtain d where d: "build_service failing_sdk = Inr d" ..
  have 2: "fst (deploy failing_sdk d deploy_kwargs (remote (init 0))) = Inl ''quota exceeded''"
    by (simp add: failing_sdk_def)
  from 1 exception_propagates [of rejecting_sdk "init 0" "''ValidationError''"]
  have a: "fst (script rejecting_sdk (init 0)) = Inl ''ValidationError''" by blast
  from d 2 exception_propagates [of failing_sdk "init 0" "''quota exceeded''"]
  have b: "fst (script failing_sdk (init 0)) = Inl ''quota exceeded''" by blast
  from a b show ?thesis ..
qed

end
